theory Spec2Isabelle
  imports Main
begin

section \<open>The managed RAG notebook: request construction\<close>

text \<open>
  The repository's source is one notebook,
  \<^verbatim>\<open>02_Knowledge_Bases_and_RAG/2_managed-rag-with-retrieve-and-generate-api.ipynb\<close>.
  Its code cells import libraries, build a client configuration and a model ARN, and send one
  \<^verbatim>\<open>retrieve_and_generate\<close> request to the managed service. Retrieval, context assembly,
  generation and citation reconciliation all happen inside that service; the notebook holds
  no code for them. This theory embeds what the notebook does itself.
\<close>

subsection \<open>Data\<close>

text \<open>
  The keyword arguments of the call are nested Python dicts with string keys and string
  leaves; the service's answer is a dict as well, with lists and other leaves inside. A dict
  keeps its keys in insertion order, so an object is an association list. Numbers are
  integers here: the notebook never inspects one.
\<close>

datatype json =
    JNull
  | JBool bool
  | JNum int
  | JString string
  | JList "json list"
  | JObject "(string \<times> json) list"

text \<open>
  What can leave the query cell as an exception: whatever the service call raises (type
  \<open>'e\<close>), and the \<^verbatim>\<open>KeyError\<close> or \<^verbatim>\<open>TypeError\<close> of a subscript in line 158.
\<close>

datatype 'e py_error = ServiceError 'e | KeyError string | TypeError

text \<open>
  How a run of the query cell ends: with an exception, or with the one \<^verbatim>\<open>print\<close> call of
  line 158, recorded by its argument values (their rendering by \<^verbatim>\<open>str\<close> is not modelled).
\<close>

datatype 'e outcome = Raised "'e py_error" | Printed "json list"

text \<open>The \<^verbatim>\<open>Config(...)\<close> object of cell 1.2 (line 96 of the notebook).\<close>

record client_config =
  connect_timeout :: nat
  read_timeout :: nat
  retries_max_attempts :: nat

text \<open>
  The kernel's global variables that the query cell reads or writes. A Python name is unbound
  until its first assignment, hence the options; \<open>bedrock_kb_id\<close> and \<open>model_arn\<close> are bound
  by the cells of section 1.2, which run before the query cell.
\<close>

record notebook_env =
  bedrock_kb_id :: string
  model_arn :: string
  user_query :: "string option"
  response :: "json option"

subsection \<open>Cell 1.2: client configuration and model ARN\<close>

definition bedrock_config :: client_config where
  "bedrock_config = \<lparr>connect_timeout = 120, read_timeout = 120, retries_max_attempts = 0\<rparr>"

definition model_id :: string where
  "model_id = ''amazon.nova-micro-v1:0''"

text \<open>
  \<^verbatim>\<open>model_arn = f'arn:aws:bedrock:{aws_region}::foundation-model/{model_id}'\<close>. The client of
  line 97 is created before this line and needs a region, so \<open>aws_region\<close> is a string here.
\<close>

definition mk_model_arn :: "string \<Rightarrow> string" where
  "mk_model_arn aws_region = ''arn:aws:bedrock:'' @ aws_region @ ''::foundation-model/'' @ model_id"

subsection \<open>Cell 2.1: the query\<close>

definition user_query_text :: string where
  "user_query_text = ''How does Amazon use technology to better serve its customers?''"

text \<open>The keyword arguments of \<^verbatim>\<open>bedrock_agent_client.retrieve_and_generate\<close>, lines 145-156.\<close>

definition retrieve_and_generate_request :: "string \<Rightarrow> string \<Rightarrow> string \<Rightarrow> json" where
  "retrieve_and_generate_request query kb_id arn =
     JObject
       [(''input'', JObject [(''text'', JString query)]),
        (''retrieveAndGenerateConfiguration'',
           JObject
             [(''type'', JString ''KNOWLEDGE_BASE''),
              (''knowledgeBaseConfiguration'',
                 JObject
                   [(''knowledgeBaseId'', JString kb_id),
                    (''modelArn'', JString arn)])])]"

text \<open>
  Python's \<^verbatim>\<open>v[k]\<close> for a string key: a dict gives the value or raises \<^verbatim>\<open>KeyError\<close>;
  a string, a list, a number, a boolean and \<^verbatim>\<open>None\<close> raise \<^verbatim>\<open>TypeError\<close>.
\<close>

fun py_getitem :: "json \<Rightarrow> string \<Rightarrow> 'e py_error + json" where
  "py_getitem (JObject kvs) k = (case map_of kvs k of None \<Rightarrow> Inl (KeyError k) | Some v \<Rightarrow> Inr v)"
| "py_getitem JNull k = Inl TypeError"
| "py_getitem (JBool b) k = Inl TypeError"
| "py_getitem (JNum n) k = Inl TypeError"
| "py_getitem (JString s) k = Inl TypeError"
| "py_getitem (JList xs) k = Inl TypeError"

text \<open>
  Line 158, \<^verbatim>\<open>print("Final reply:\n", response['output']['text'])\<close>: the two subscripts
  are evaluated left to right, then \<^verbatim>\<open>print\<close> receives the two arguments.
\<close>

definition final_reply_args :: "json \<Rightarrow> 'e py_error + json list" where
  "final_reply_args r =
     (case py_getitem r ''output'' of
        Inl err \<Rightarrow> Inl err
      | Inr out \<Rightarrow>
          (case py_getitem out ''text'' of
             Inl err \<Rightarrow> Inl err
           | Inr txt \<Rightarrow> Inr [JString (''Final reply:'' @ [CHR 0x0A]), txt]))"

text \<open>
  Running the cell: line 143 binds \<open>user_query\<close>, lines 145-156 send the request to the
  service \<open>svc\<close> and bind \<open>response\<close> to what it returns, line 158 prints the reply. The
  service is an external collaborator and is a parameter; when it raises, the exception
  leaves the cell and \<open>response\<close> keeps its old binding. When a subscript of line 158 raises,
  \<open>response\<close> is already bound. The result is the request that was sent, how the cell ended,
  and the environment after the cell.
\<close>

definition cell_query ::
  "(json \<Rightarrow> 'e + json) \<Rightarrow> notebook_env \<Rightarrow> json \<times> 'e outcome \<times> notebook_env" where
  "cell_query svc env =
     (let env1 = env\<lparr>user_query := Some user_query_text\<rparr>;
          req = retrieve_and_generate_request
                  (the (user_query env1)) (bedrock_kb_id env1) (model_arn env1)
      in case svc req of
           Inl err \<Rightarrow> (req, Raised (ServiceError err), env1)
         | Inr r \<Rightarrow>
             (req,
              (case final_reply_args r of Inl err \<Rightarrow> Raised err | Inr args \<Rightarrow> Printed args),
              env1\<lparr>response := Some r\<rparr>))"

subsection \<open>Observations on a request\<close>

text \<open>Every key of a value, at every nesting depth, in document order.\<close>

fun json_keys :: "json \<Rightarrow> string list" where
  "json_keys (JObject kvs) = concat (map (\<lambda>kv. fst kv # json_keys (snd kv)) kvs)"
| "json_keys (JList xs) = concat (map json_keys xs)"
| "json_keys JNull = []"
| "json_keys (JBool b) = []"
| "json_keys (JNum n) = []"
| "json_keys (JString s) = []"

text \<open>Every string leaf of a value, in document order.\<close>

fun json_strings :: "json \<Rightarrow> string list" where
  "json_strings (JString s) = [s]"
| "json_strings (JObject kvs) = concat (map (\<lambda>kv. json_strings (snd kv)) kvs)"
| "json_strings (JList xs) = concat (map json_strings xs)"
| "json_strings JNull = []"
| "json_strings (JBool b) = []"
| "json_strings (JNum n) = []"

text \<open>The value under a top-level key of an object, \<open>None\<close> where there is none.\<close>

fun json_get :: "string \<Rightarrow> json \<Rightarrow> json option" where
  "json_get k (JObject kvs) = map_of kvs k"
| "json_get k JNull = None"
| "json_get k (JBool b) = None"
| "json_get k (JNum n) = None"
| "json_get k (JString s) = None"
| "json_get k (JList xs) = None"

subsection \<open>Two sample runs\<close>

text \<open>
  A kernel in which the query cell has not run yet, and one in which it ran before with
  another question and still holds that run's answer; both after the same setup cells.
\<close>

definition env_fresh :: notebook_env where
  "env_fresh =
     \<lparr>bedrock_kb_id = ''KB0123456789'', model_arn = mk_model_arn ''us-east-1'',
      user_query = None, response = None\<rparr>"

definition env_stale :: notebook_env where
  "env_stale =
     \<lparr>bedrock_kb_id = ''KB0123456789'', model_arn = mk_model_arn ''us-east-1'',
      user_query = Some ''What was said before?'',
      response = Some (JObject
        [(''output'', JObject [(''text'', JString ''An earlier reply.'')]),
         (''citations'', JList []),
         (''sessionId'', JString ''session-1'')])\<rparr>"

text \<open>A service that answers, and one whose call raises.\<close>

definition svc_answers :: "json \<Rightarrow> string + json" where
  "svc_answers req =
     Inr (JObject
       [(''output'', JObject [(''text'', JString ''A reply.'')]),
        (''citations'', JList []),
        (''sessionId'', JString ''session-2'')])"

definition svc_throttled :: "json \<Rightarrow> string + json" where
  "svc_throttled req = Inl ''ThrottlingException''"

section \<open>Properties\<close>

lemma bedrock_config_no_retries: "retries_max_attempts bedrock_config = 0"
  by (simp add: bedrock_config_def)

lemma request_keys:
  "json_keys (retrieve_and_generate_request query kb_id arn) =
     [''input'', ''text'', ''retrieveAndGenerateConfiguration'', ''type'',
      ''knowledgeBaseConfiguration'', ''knowledgeBaseId'', ''modelArn'']"
  by (simp add: retrieve_and_generate_request_def)

lemma request_strings:
  "json_strings (retrieve_and_generate_request query kb_id arn) =
     [query, ''KNOWLEDGE_BASE'', kb_id, arn]"
  by (simp add: retrieve_and_generate_request_def)

lemma request_top_level:
  "json_get ''sessionId'' (retrieve_and_generate_request query kb_id arn) = None"
  by (simp add: retrieve_and_generate_request_def)

lemma request_inject:
  "retrieve_and_generate_request q1 k1 a1 = retrieve_and_generate_request q2 k2 a2
     \<longleftrightarrow> q1 = q2 \<and> k1 = k2 \<and> a1 = a2"
  by (auto simp add: retrieve_and_generate_request_def)

lemma cell_query_sent:
  "fst (cell_query svc env) =
     retrieve_and_generate_request user_query_text (bedrock_kb_id env) (model_arn env)"
  by (simp add: cell_query_def Let_def split: sum.split)

lemma cell_query_keeps_inputs:
  "bedrock_kb_id (snd (snd (cell_query svc env))) = bedrock_kb_id env"
  "model_arn (snd (snd (cell_query svc env))) = model_arn env"
  by (simp_all add: cell_query_def Let_def split: sum.split)

lemma cell_query_missing_output:
  "fst (snd (cell_query (\<lambda>req. Inr (JObject [(''citations'', JList [])])) env)) =
     Raised (KeyError ''output'')"
  by (simp add: cell_query_def Let_def final_reply_args_def)

lemma cell_query_prints_reply:
  "fst (snd (cell_query svc_answers env)) =
     Printed [JString (''Final reply:'' @ [CHR 0x0A]), JString ''A reply.'']"
  by (simp add: cell_query_def Let_def final_reply_args_def svc_answers_def)

lemma cell_query_service_raises:
  "snd (cell_query svc_throttled env) =
     (Raised (ServiceError ''ThrottlingException''), env\<lparr>user_query := Some user_query_text\<rparr>)"
  by (simp add: cell_query_def Let_def svc_throttled_def)

lemma cell_query_pairs:
  "bedrock_kb_id envA = bedrock_kb_id envB \<Longrightarrow> model_arn envA = model_arn envB
     \<Longrightarrow> fst (cell_query svcA envA) = fst (cell_query svcB envB)"
  by (simp add: cell_query_sent)

text \<open>
  C10. The request that the query cell sends is the payload built from the query text of
  line 143, \<open>bedrock_kb_id\<close> and \<open>model_arn\<close>, and from nothing else: any two runs of the cell
  with the same \<open>bedrock_kb_id\<close> and \<open>model_arn\<close> send the same request, whatever else the two
  kernels hold (a stale \<open>user_query\<close>, an earlier \<open>response\<close>) and whatever the service answers
  or raises. The payload is a function of exactly its three inputs: two payloads are equal
  if and only if the three inputs are. Its string leaves are the three inputs and the
  constant \<^verbatim>\<open>KNOWLEDGE_BASE\<close>, and no key of it, at any depth, is \<^verbatim>\<open>sessionId\<close>. The client
  carries nothing from one call to the next: running the cell again in the environment that
  a first run left behind sends the same request.
\<close>

theorem request_is_stateless:
  "fst (cell_query svc env) =
     retrieve_and_generate_request user_query_text (bedrock_kb_id env) (model_arn env)
   \<and> (bedrock_kb_id envA = bedrock_kb_id envB \<and> model_arn envA = model_arn envB
        \<longrightarrow> fst (cell_query svcA envA) = fst (cell_query svcB envB))
   \<and> (retrieve_and_generate_request q1 k1 a1 = retrieve_and_generate_request q2 k2 a2
        \<longleftrightarrow> q1 = q2 \<and> k1 = k2 \<and> a1 = a2)
   \<and> json_strings (retrieve_and_generate_request q1 k1 a1) = [q1, ''KNOWLEDGE_BASE'', k1, a1]
   \<and> json_keys (retrieve_and_generate_request q1 k1 a1) =
     [''input'', ''text'', ''retrieveAndGenerateConfiguration'', ''type'',
      ''knowledgeBaseConfiguration'', ''knowledgeBaseId'', ''modelArn'']
   \<and> json_strings (fst (cell_query svc env)) =
     [user_query_text, ''KNOWLEDGE_BASE'', bedrock_kb_id env, model_arn env]
   \<and> json_keys (fst (cell_query svc env)) =
     [''input'', ''text'', ''retrieveAndGenerateConfiguration'', ''type'',
      ''knowledgeBaseConfiguration'', ''knowledgeBaseId'', ''modelArn'']
   \<and> ''sessionId'' \<notin> set (json_keys (fst (cell_query svc env)))
   \<and> json_get ''sessionId'' (fst (cell_query svc env)) = None
   \<and> fst (cell_query svc' (snd (snd (cell_query svc env)))) = fst (cell_query svc env)"
proof -
  have sent: "fst (cell_query svc env) =
      retrieve_and_generate_request user_query_text (bedrock_kb_id env) (model_arn env)"
    by (rule cell_query_sent)
  have pairs: "bedrock_kb_id envA = bedrock_kb_id envB \<and> model_arn envA = model_arn envB
      \<longrightarrow> fst (cell_query svcA envA) = fst (cell_query svcB envB)"
    by (simp add: cell_query_pairs)
  have again: "fst (cell_query svc' (snd (snd (cell_query svc env)))) = fst (cell_query svc env)"
    by (simp add: cell_query_sent cell_query_keeps_inputs)
  show ?thesis
    using sent pairs again
    by (simp add: request_inject request_keys request_strings request_top_level)
qed

theorem request_is_stateless_witness:
  "bedrock_kb_id env_fresh = bedrock_kb_id env_stale
   \<and> model_arn env_fresh = model_arn env_stale
   \<and> user_query env_fresh \<noteq> user_query env_stale
   \<and> response env_fresh \<noteq> response env_stale
   \<and> fst (cell_query svc_answers env_fresh) = fst (cell_query svc_throttled env_stale)"
proof -
  have inputs: "bedrock_kb_id env_fresh = bedrock_kb_id env_stale
      \<and> model_arn env_fresh = model_arn env_stale"
    by (simp add: env_fresh_def env_stale_def)
  have differ: "user_query env_fresh \<noteq> user_query env_stale
      \<and> response env_fresh \<noteq> response env_stale"
    by (simp add: env_fresh_def env_stale_def)
  have "fst (cell_query svc_answers env_fresh) = fst (cell_query svc_throttled env_stale)"
    using inputs
      request_is_stateless [where envA = env_fresh and envB = env_stale
        and svcA = svc_answers and svcB = svc_throttled]
    by blast
  with inputs differ show ?thesis by blast
qed

end
